theory Spec2Isabelle
  imports Main "HOL-Library.Word"
begin

unbundle bit_operations_syntax

section \<open>Chain parameters of the three networks (chainparams.h, chainparams.cpp)\<close>

subsection \<open>Data\<close>

type_synonym uint256 = "256 word"
type_synonym uchar = "8 word"

datatype Network = MAIN | TESTNET | REGTEST | MAX_NETWORK_TYPES

datatype Base58Type =
  PUBKEY_ADDRESS | SCRIPT_ADDRESS | SECRET_KEY | EXT_PUBLIC_KEY | EXT_SECRET_KEY | MAX_BASE58_TYPES

text \<open>The numeric value of an enumerator, which indexes the array \<open>base58Prefixes\<close>.\<close>

fun Base58Type_value :: "Base58Type \<Rightarrow> nat" where
  "Base58Type_value PUBKEY_ADDRESS = 0"
| "Base58Type_value SCRIPT_ADDRESS = 1"
| "Base58Type_value SECRET_KEY = 2"
| "Base58Type_value EXT_PUBLIC_KEY = 3"
| "Base58Type_value EXT_SECRET_KEY = 4"
| "Base58Type_value MAX_BASE58_TYPES = 5"

datatype error = AssertionFailed string | OutOfBounds

record CDNSSeedData =
  name :: string
  host :: string

text \<open>
  A script is kept as the sequence of operands the constructor streams into \<open>CScript()\<close>
  with \<open><<\<close>; the byte encoding of a script belongs to the script module.
\<close>

datatype opcodetype = OP_CHECKSIG

datatype script_operand =
  push_int int
| push_CScriptNum int
| push_chars string
| push_ParseHex string
| push_opcode opcodetype

type_synonym CScript = "script_operand list"

record CTxIn =
  scriptSig :: CScript

record CTxOut =
  nValue :: int
  scriptPubKey :: CScript

record CTransaction =
  vin :: "CTxIn list"
  vout :: "CTxOut list"

record CBlock =
  nVersion :: "32 word"
  hashPrevBlock :: uint256
  hashMerkleRoot :: uint256
  nTime :: "32 word"
  nBits :: "32 word"
  nNonce :: "32 word"
  vtx :: "CTransaction list"

text \<open>
  A peer address made from a fixed seed: the four raw bytes of the seed word, the port and
  the "last seen" time, held at the width of the expression that computes it.
\<close>

record CAddress =
  ip :: "32 word"
  port :: int
  addr_nTime :: "64 word"

text \<open>The dynamic type of a parameter object, which decides its virtual member functions.\<close>

datatype params_class = CMainParams | CTestNetParams | CRegTestParams

record CChainParams =
  dyn_class :: params_class
  hashGenesisBlock :: uint256
  pchMessageStart :: "uchar list"
  vAlertPubKey :: string
  nDefaultPort :: int
  nRPCPort :: int
  bnProofOfWorkLimit :: int
  nSubsidyHalvingInterval :: int
  strDataDir :: string
  vSeeds :: "CDNSSeedData list"
  base58Prefixes :: "uchar list list"
  fStrictChainId :: bool
  nAuxpowChainId :: "16 word"
  nStartAuxPow :: int
  nEquihashN :: "32 word"
  nEquihashK :: "32 word"
  fMineBlocksOnDemand :: bool
  nForkHeight2 :: "64 word"
  genesis :: CBlock
  vFixedSeeds :: "CAddress list"

text \<open>
  What the two files take from the rest of the node, as parameters: the coin unit,
  \<open>CBlock::GetHash\<close>, \<open>CBlock::BuildMerkleTree\<close> (the Merkle root of the
  transactions of the block), the clock, the random source and the lookup of a boolean
  command-line flag. \<open>GetTime\<close> and \<open>GetRand\<close> are indexed by the
  iteration of the seed loop that calls them, since every call may return another value.
\<close>

record env =
  COIN :: int
  GetHash :: "CBlock \<Rightarrow> uint256"
  BuildMerkleTree :: "CTransaction list \<Rightarrow> uint256"
  GetTime :: "nat \<Rightarrow> 64 word"
  GetRand :: "nat \<Rightarrow> 64 word \<Rightarrow> 64 word"
  GetBoolArg :: "string \<Rightarrow> bool \<Rightarrow> bool"

subsection \<open>Constants of chainparams.cpp\<close>

definition pnSeed :: "32 word list" where
  "pnSeed = [0xac1f1f0a, 0xae240982, 0x253b1359]"

definition nOneWeek :: "64 word" where
  "nOneWeek = 7 * 24 * 60 * 60"

text \<open>The two \<open>pszTimestamp\<close> strings and the 256-bit literals of the assertions.\<close>

definition pszTimestamp_main :: string where
  "pszTimestamp_main = ''13/July/2014, with memory of the past, we look to the future. TDR''"

definition pszTimestamp_testnet :: string where
  "pszTimestamp_testnet = ''Testing Testnet''"

definition expected_hash_main :: uint256 where
  "expected_hash_main = 0xc1fb746e87e89ae75bdec2ef0639a1f6786744639ce3d0ece1dcf979b79137cb"

definition expected_merkle_main :: uint256 where
  "expected_merkle_main = 0xd4715adf41222fae3d4bf41af30c675bc27228233d0f3cfd4ae0ae1d3e760ba8"

definition expected_hash_testnet :: uint256 where
  "expected_hash_testnet = 0x572f069d470350b8facc52a0866671d2d3071230e4df45d193394ae153fa891d"

definition expected_hash_regtest :: uint256 where
  "expected_hash_regtest = 0x168329a349fc93768bfb02e536bbe1e1847d77a65764564552122fa9268d8841"

text \<open>
  \<open>list_of(a)(b)...\<close> assigned to a \<open>vector<unsigned char>\<close>: every \<open>int\<close> of the list is
  converted to \<open>unsigned char\<close>, that is, reduced modulo 256.
\<close>

definition list_of :: "int list \<Rightarrow> uchar list" where
  "list_of xs = map word_of_int xs"

text \<open>\<open>CBigNum(u)\<close> for a 256-bit unsigned \<open>u\<close>: the same number, unbounded.\<close>

definition CBigNum :: "uint256 \<Rightarrow> int" where
  "CBigNum u = uint u"

subsection \<open>Construction\<close>

text \<open>
  The three parameter objects have static storage, so every member is zero before its
  constructor runs; the members then get their default initialisers (empty vectors and
  strings, \<open>nEquihashN = 0\<close>, \<open>nEquihashK = 0\<close>, \<open>fMineBlocksOnDemand = true\<close>).
  \<open>CChainParams() {}\<close> assigns nothing; the constructor of each derived class sets the
  dynamic type on entry. The default constructor of \<open>CBlock\<close> is
  outside the two files: \<open>vtx\<close> starts empty, and \<open>CMainParams\<close> assigns every
  header field before it is read.
\<close>

definition CBlock_null :: CBlock where
  "CBlock_null = \<lparr> nVersion = 0, hashPrevBlock = 0, hashMerkleRoot = 0, nTime = 0, nBits = 0,
     nNonce = 0, vtx = [] \<rparr>"

definition CChainParams_ctor :: CChainParams where
  "CChainParams_ctor = \<lparr> dyn_class = CMainParams, hashGenesisBlock = 0,
     pchMessageStart = [0, 0, 0, 0], vAlertPubKey = [], nDefaultPort = 0, nRPCPort = 0,
     bnProofOfWorkLimit = 0, nSubsidyHalvingInterval = 0, strDataDir = [], vSeeds = [],
     base58Prefixes = [[], [], [], [], []], fStrictChainId = False, nAuxpowChainId = 0,
     nStartAuxPow = 0, nEquihashN = 0, nEquihashK = 0, fMineBlocksOnDemand = True,
     nForkHeight2 = 0, genesis = CBlock_null, vFixedSeeds = [] \<rparr>"

text \<open>The coinbase transaction of a genesis block, as both constructors build \<open>txNew\<close>.\<close>

definition txNew_of :: "env \<Rightarrow> string \<Rightarrow> CTransaction" where
  "txNew_of e pszTimestamp =
     \<lparr> vin = [\<lparr> scriptSig = [push_int 486604799, push_CScriptNum 4, push_chars pszTimestamp] \<rparr>],
       vout = [\<lparr> nValue = 20 * COIN e,
                 scriptPubKey = [push_ParseHex ''04f88a76429dad346a10ecb5d36fcbf50bc2e009870e20c1a6df8db743e0b994afc1f91e079be8acc380b0ee7765519906e3d781519e9db48259f64160104939d8'',
                                 push_opcode OP_CHECKSIG] \<rparr>] \<rparr>"

text \<open>One iteration of the loop that converts \<open>pnSeed\<close> into address objects.\<close>

definition seed_step :: "env \<Rightarrow> nat \<Rightarrow> CChainParams \<Rightarrow> CChainParams" where
  "seed_step e i this =
     (let addr = \<lparr> ip = pnSeed ! i, port = nDefaultPort this,
                   addr_nTime = GetTime e i - GetRand e i nOneWeek - nOneWeek \<rparr>
      in this\<lparr> vFixedSeeds := vFixedSeeds this @ [addr] \<rparr>)"

definition CMainParams_ctor :: "env \<Rightarrow> error + CChainParams" where
  "CMainParams_ctor e =
     (let this = CChainParams_ctor\<lparr> dyn_class := CMainParams \<rparr>;
          this = this\<lparr> pchMessageStart := (pchMessageStart this)[0 := 0xf9, 1 := 0xbe, 2 := 0xb4, 3 := 0xd9],
                      vAlertPubKey := ''04bf5a75ff0f823840ef512b08add20bb4275ff6e097f2830ad28645e28cb5ea4dc2cfd0972b94019ad46f331b45ef4ba679f2e6c87fd19c864365fadb4f8d2269'',
                      nDefaultPort := 9265,
                      nRPCPort := 9266,
                      bnProofOfWorkLimit := CBigNum (drop_bit 32 (NOT 0)),
                      nSubsidyHalvingInterval := 788000,
                      fStrictChainId := False,
                      nAuxpowChainId := 0x005B \<rparr>;
          txNew = txNew_of e pszTimestamp_main;
          g = (genesis this)\<lparr> vtx := vtx (genesis this) @ [txNew] \<rparr>;
          g = g\<lparr> hashPrevBlock := 0 \<rparr>;
          g = g\<lparr> hashMerkleRoot := BuildMerkleTree e (vtx g) \<rparr>;
          g = g\<lparr> nVersion := 1, nTime := 1405274442, nBits := 0x1d00ffff, nNonce := 14385103 \<rparr>;
          this = this\<lparr> genesis := g \<rparr>;
          this = this\<lparr> hashGenesisBlock := GetHash e (genesis this) \<rparr>
      in if hashGenesisBlock this \<noteq> expected_hash_main
         then Inl (AssertionFailed ''hashGenesisBlock'')
         else if hashMerkleRoot (genesis this) \<noteq> expected_merkle_main
         then Inl (AssertionFailed ''genesis.hashMerkleRoot'')
         else
           let this = this\<lparr> vSeeds := vSeeds this @ [\<lparr> name = ''bitmark.co'', host = ''seed.bitmark.co'' \<rparr>] \<rparr>;
               this = this\<lparr> base58Prefixes := (base58Prefixes this)
                   [Base58Type_value PUBKEY_ADDRESS := list_of [85],
                    Base58Type_value SCRIPT_ADDRESS := list_of [5],
                    Base58Type_value SECRET_KEY := list_of [213],
                    Base58Type_value EXT_PUBLIC_KEY := list_of [0x04, 0x88, 0xB2, 0x1E],
                    Base58Type_value EXT_SECRET_KEY := list_of [0x04, 0x88, 0xAD, 0xE4]] \<rparr>
           in Inr (fold (seed_step e) [0 ..< length pnSeed] this))"

text \<open>
  \<open>CTestNetParams\<close> derives from \<open>CMainParams\<close>: the base constructor runs first, with its
  assertions, and the body then overrides members of the object it left. The \<open>printf\<close> of
  the hash writes to the standard output and leaves the object alone.
\<close>

definition CTestNetParams_ctor :: "env \<Rightarrow> error + CChainParams" where
  "CTestNetParams_ctor e =
     (case CMainParams_ctor e of
        Inl err \<Rightarrow> Inl err
      | Inr this \<Rightarrow>
         (let this = this\<lparr> dyn_class := CTestNetParams \<rparr>;
              this = this\<lparr> pchMessageStart := (pchMessageStart this)[0 := 0x0b, 1 := 0x11, 2 := 0x09, 3 := 0x07],
                          vAlertPubKey := ''0468770c9d451dd5d6d373ae6096d4ab0705c4ab66e55cc25c40788580039bd04b7672322b9bd26ce22a3ad95f490d7d188a905ce30246b2425eca8cc5102190d0'',
                          nDefaultPort := 19265,
                          nRPCPort := 19266,
                          bnProofOfWorkLimit := CBigNum (drop_bit 8 (NOT 0)),
                          strDataDir := ''testnet4'',
                          fStrictChainId := False,
                          nAuxpowChainId := 0x005B \<rparr>;
              txNew = txNew_of e pszTimestamp_testnet;
              g = (genesis this)\<lparr> vtx := (vtx (genesis this))[0 := txNew] \<rparr>;
              g = g\<lparr> hashPrevBlock := 0 \<rparr>;
              g = g\<lparr> hashMerkleRoot := BuildMerkleTree e (vtx g) \<rparr>;
              g = g\<lparr> nTime := 1509891419, nBits := 0x1e0ffff0, nNonce := 1291475 \<rparr>;
              this = this\<lparr> genesis := g \<rparr>;
              this = this\<lparr> hashGenesisBlock := GetHash e (genesis this) \<rparr>
          in if hashGenesisBlock this \<noteq> expected_hash_testnet
             then Inl (AssertionFailed ''hashGenesisBlock'')
             else
               let this = this\<lparr> vFixedSeeds := [], vSeeds := [] \<rparr>;
                   this = this\<lparr> vSeeds := vSeeds this @ [\<lparr> name = ''bitmark.io'', host = ''us.bitmark.io'' \<rparr>] \<rparr>;
                   this = this\<lparr> vSeeds := vSeeds this @ [\<lparr> name = ''bitmark.co'', host = ''explorer.bitmark.co'' \<rparr>] \<rparr>;
                   this = this\<lparr> base58Prefixes := (base58Prefixes this)
                       [Base58Type_value PUBKEY_ADDRESS := list_of [130],
                        Base58Type_value SCRIPT_ADDRESS := list_of [196],
                        Base58Type_value SECRET_KEY := list_of [258],
                        Base58Type_value EXT_PUBLIC_KEY := list_of [0x04, 0x35, 0x87, 0xCF],
                        Base58Type_value EXT_SECRET_KEY := list_of [0x04, 0x35, 0x83, 0x94]] \<rparr>
               in Inr this))"

text \<open>
  \<open>CRegTestParams\<close> derives from \<open>CTestNetParams\<close>. The statements are in the order of the
  source: the hash is taken while the nonce is 713058, the nonce is assigned 3 next, and the
  assertion on the stored hash comes after both.
\<close>

definition CRegTestParams_ctor :: "env \<Rightarrow> error + CChainParams" where
  "CRegTestParams_ctor e =
     (case CTestNetParams_ctor e of
        Inl err \<Rightarrow> Inl err
      | Inr this \<Rightarrow>
         (let this = this\<lparr> dyn_class := CRegTestParams \<rparr>;
              this = this\<lparr> pchMessageStart := (pchMessageStart this)[0 := 0xfa, 1 := 0xbf, 2 := 0xb5, 3 := 0xda],
                          nSubsidyHalvingInterval := 150,
                          bnProofOfWorkLimit := CBigNum (drop_bit 1 (NOT 0)) \<rparr>;
              this = this\<lparr> genesis := (genesis this)\<lparr> nTime := 1405274400, nBits := 0x207fffff, nNonce := 713058 \<rparr> \<rparr>;
              this = this\<lparr> hashGenesisBlock := GetHash e (genesis this) \<rparr>;
              this = this\<lparr> genesis := (genesis this)\<lparr> nNonce := 3 \<rparr> \<rparr>;
              this = this\<lparr> nDefaultPort := 18444,
                          strDataDir := ''regtest'',
                          fStrictChainId := False,
                          nAuxpowChainId := 0x005B \<rparr>
          in if hashGenesisBlock this \<noteq> expected_hash_regtest
             then Inl (AssertionFailed ''hashGenesisBlock'')
             else Inr (this\<lparr> vSeeds := [] \<rparr>)))"

subsection \<open>Member functions of \<open>CChainParams\<close>\<close>

definition HashGenesisBlock :: "CChainParams \<Rightarrow> uint256" where
  "HashGenesisBlock this = hashGenesisBlock this"

definition GenesisBlock :: "CChainParams \<Rightarrow> CBlock" where
  "GenesisBlock this = genesis this"

definition ProofOfWorkLimit :: "CChainParams \<Rightarrow> int" where
  "ProofOfWorkLimit this = bnProofOfWorkLimit this"

definition FixedSeeds :: "CChainParams \<Rightarrow> CAddress list" where
  "FixedSeeds this = vFixedSeeds this"

text \<open>
  \<open>RequireRPCPassword\<close> and \<open>NetworkID\<close> are virtual: the most derived override of the
  object's class answers.
\<close>

fun RequireRPCPassword_of :: "params_class \<Rightarrow> bool" where
  "RequireRPCPassword_of CMainParams = True"
| "RequireRPCPassword_of CTestNetParams = True"
| "RequireRPCPassword_of CRegTestParams = False"

definition RequireRPCPassword :: "CChainParams \<Rightarrow> bool" where
  "RequireRPCPassword this = RequireRPCPassword_of (dyn_class this)"

fun NetworkID_of :: "params_class \<Rightarrow> Network" where
  "NetworkID_of CMainParams = MAIN"
| "NetworkID_of CTestNetParams = TESTNET"
| "NetworkID_of CRegTestParams = REGTEST"

definition NetworkID :: "CChainParams \<Rightarrow> Network" where
  "NetworkID this = NetworkID_of (dyn_class this)"

text \<open>
  \<open>base58Prefixes[type]\<close> reads an array of \<open>MAX_BASE58_TYPES\<close> vectors; an index past
  its end is an error of the caller.
\<close>

definition Base58Prefix :: "CChainParams \<Rightarrow> Base58Type \<Rightarrow> error + uchar list" where
  "Base58Prefix this type =
     (if Base58Type_value type < length (base58Prefixes this)
      then Inr (base58Prefixes this ! Base58Type_value type)
      else Inl OutOfBounds)"

definition GetFork2Height :: "CChainParams \<Rightarrow> 64 word" where
  "GetFork2Height this = nForkHeight2 this"

text \<open>\<open>blockHeight >= nForkHeight2\<close> compares two signed 64-bit integers.\<close>

definition OnFork2 :: "CChainParams \<Rightarrow> 64 word \<Rightarrow> bool" where
  "OnFork2 this blockHeight = (sint (nForkHeight2 this) \<le> sint blockHeight)"

definition CEM_WindowLength :: "CChainParams \<Rightarrow> 64 word \<Rightarrow> int" where
  "CEM_WindowLength this blockHeight = (if OnFork2 this blockHeight then 90 else 365)"

definition CEM_MaxNativeBlockRewardReduction :: "CChainParams \<Rightarrow> 64 word \<Rightarrow> int" where
  "CEM_MaxNativeBlockRewardReduction this blockHeight = (if OnFork2 this blockHeight then 80 else 50)"

subsection \<open>The selected parameters\<close>

text \<open>
  The file-level objects: the three parameter sets and the pointer \<open>pCurrentParams\<close>, which
  holds the address of one of them.
\<close>

datatype params_ptr = addr_mainParams | addr_testNetParams | addr_regTestParams

record globals =
  mainParams :: CChainParams
  testNetParams :: CChainParams
  regTestParams :: CChainParams
  pCurrentParams :: params_ptr

text \<open>
  Static initialisation, in the order of the definitions in the file. A failed assertion
  aborts the process, so no later state exists.
\<close>

definition static_init :: "env \<Rightarrow> error + globals" where
  "static_init e =
     (case CMainParams_ctor e of
        Inl err \<Rightarrow> Inl err
      | Inr m \<Rightarrow>
         (case CTestNetParams_ctor e of
            Inl err \<Rightarrow> Inl err
          | Inr t \<Rightarrow>
             (case CRegTestParams_ctor e of
                Inl err \<Rightarrow> Inl err
              | Inr r \<Rightarrow>
                  Inr \<lparr> mainParams = m, testNetParams = t, regTestParams = r,
                        pCurrentParams = addr_mainParams \<rparr>)))"

fun deref :: "globals \<Rightarrow> params_ptr \<Rightarrow> CChainParams" where
  "deref s addr_mainParams = mainParams s"
| "deref s addr_testNetParams = testNetParams s"
| "deref s addr_regTestParams = regTestParams s"

definition Params :: "globals \<Rightarrow> CChainParams" where
  "Params s = deref s (pCurrentParams s)"

fun SelectParams :: "Network \<Rightarrow> globals \<Rightarrow> error + globals" where
  "SelectParams MAIN s = Inr (s\<lparr> pCurrentParams := addr_mainParams \<rparr>)"
| "SelectParams TESTNET s = Inr (s\<lparr> pCurrentParams := addr_testNetParams \<rparr>)"
| "SelectParams REGTEST s = Inr (s\<lparr> pCurrentParams := addr_regTestParams \<rparr>)"
| "SelectParams MAX_NETWORK_TYPES s = Inl (AssertionFailed ''Unimplemented network'')"

text \<open>The result is the returned \<open>bool\<close> together with the globals the call leaves.\<close>

definition SelectParamsFromCommandLine :: "env \<Rightarrow> globals \<Rightarrow> error + (bool \<times> globals)" where
  "SelectParamsFromCommandLine e s =
     (let fRegTest = GetBoolArg e ''-regtest'' False;
          fTestNet = GetBoolArg e ''-testnet'' False
      in if fTestNet \<and> fRegTest then Inr (False, s)
         else
           (case (if fRegTest then SelectParams REGTEST s
                  else if fTestNet then SelectParams TESTNET s
                  else SelectParams MAIN s) of
              Inl err \<Rightarrow> Inl err
            | Inr s' \<Rightarrow> Inr (True, s')))"

definition TestNet :: "globals \<Rightarrow> bool" where
  "TestNet s = (NetworkID (Params s) = TESTNET)"

definition RegTest :: "globals \<Rightarrow> bool" where
  "RegTest s = (NetworkID (Params s) = REGTEST)"

subsection \<open>The hash functions, as the specification describes them\<close>

text \<open>
  Modelled from the spec: \<open>CBlock::GetHash\<close> and \<open>CBlock::BuildMerkleTree\<close> are defined
  with the block data structures (core.h), outside the two files. The specification says of
  them that "for each network variant, constructing its Parameter Set and hashing its
  genesis block yields exactly the network's hard-coded expected hash (literal 256-bit
  values) and exactly the network's hard-coded expected Merkle root". The predicate says
  this of an environment for the genesis block of the main network, with the one
  Merkle-root literal the source has, and for the genesis block of the test network. It
  says nothing about the regression network.
\<close>

definition genesis_hashes_as_specified :: "env \<Rightarrow> bool" where
  "genesis_hashes_as_specified e =
     (GetHash e \<lparr> nVersion = 1, hashPrevBlock = 0,
          hashMerkleRoot = BuildMerkleTree e [txNew_of e pszTimestamp_main],
          nTime = 1405274442, nBits = 0x1d00ffff, nNonce = 14385103,
          vtx = [txNew_of e pszTimestamp_main] \<rparr> = expected_hash_main \<and>
      BuildMerkleTree e [txNew_of e pszTimestamp_main] = expected_merkle_main \<and>
      GetHash e \<lparr> nVersion = 1, hashPrevBlock = 0,
          hashMerkleRoot = BuildMerkleTree e [txNew_of e pszTimestamp_testnet],
          nTime = 1509891419, nBits = 0x1e0ffff0, nNonce = 1291475,
          vtx = [txNew_of e pszTimestamp_testnet] \<rparr> = expected_hash_testnet)"

subsection \<open>States and sample environments\<close>

text \<open>
  The three parameter objects of a state are the ones their constructors built. Static
  initialisation establishes this, and \<open>SelectParams\<close> only moves the pointer.
\<close>

definition constructed :: "env \<Rightarrow> globals \<Rightarrow> bool" where
  "constructed e s =
     (CMainParams_ctor e = Inr (mainParams s) \<and>
      CTestNetParams_ctor e = Inr (testNetParams s) \<and>
      CRegTestParams_ctor e = Inr (regTestParams s))"

text \<open>
  An environment in which every assertion of the three constructors passes: its block hash
  answers by time and nonce, with the expected literal for the three headers that are
  hashed and zero for any other. It shows that the hypotheses of the theorems can be met.
\<close>

definition sample_env :: env where
  "sample_env = \<lparr> COIN = 100000000,
     GetHash = (\<lambda>b.
        if nTime b = 1405274442 \<and> nNonce b = 14385103 then expected_hash_main
        else if nTime b = 1509891419 \<and> nNonce b = 1291475 then expected_hash_testnet
        else if nTime b = 1405274400 \<and> nNonce b = 713058 then expected_hash_regtest
        else 0),
     BuildMerkleTree = (\<lambda>vtx. expected_merkle_main),
     GetTime = (\<lambda>i. 1700000000),
     GetRand = (\<lambda>i nMax. 12345),
     GetBoolArg = (\<lambda>strArg fDefault. fDefault) \<rparr>"

text \<open>The same environment with another Merkle root for every block but the main genesis.\<close>

definition sample_env2 :: env where
  "sample_env2 = sample_env\<lparr> BuildMerkleTree :=
      (\<lambda>vtx. if vtx = [txNew_of sample_env pszTimestamp_main] then expected_merkle_main else 1) \<rparr>"

text \<open>The same environment started with given \<open>-regtest\<close> and \<open>-testnet\<close> flags.\<close>

definition sample_env_flags :: "bool \<Rightarrow> bool \<Rightarrow> env" where
  "sample_env_flags fRegTest fTestNet = sample_env\<lparr> GetBoolArg :=
      (\<lambda>strArg fDefault. if strArg = ''-regtest'' then fRegTest
                          else if strArg = ''-testnet'' then fTestNet else fDefault) \<rparr>"

text \<open>The same environment with the clock at the least signed 64-bit integer.\<close>

definition sample_env_clock_min :: env where
  "sample_env_clock_min = sample_env\<lparr> GetTime := (\<lambda>i. 0x8000000000000000) \<rparr>"

definition sample_globals :: globals where
  "sample_globals = projr (static_init sample_env)"

section \<open>What the constructors leave\<close>

lemmas ctor_defs = CMainParams_ctor_def CChainParams_ctor_def CBlock_null_def Let_def

lemma seed_loop_fields:
  "fold (seed_step e) is this = this\<lparr> vFixedSeeds := vFixedSeeds this @
      map (\<lambda>i. \<lparr> ip = pnSeed ! i, port = nDefaultPort this,
                 addr_nTime = GetTime e i - GetRand e i nOneWeek - nOneWeek \<rparr>) is \<rparr>"
  by (induction "is" arbitrary: this) (simp_all add: seed_step_def Let_def)

lemma CMainParams_ctor_Inr:
  assumes "CMainParams_ctor e = Inr p"
  shows "dyn_class p = CMainParams"
    and "hashGenesisBlock p = expected_hash_main"
    and "hashMerkleRoot (genesis p) = expected_merkle_main"
    and "hashGenesisBlock p = GetHash e (genesis p)"
    and "bnProofOfWorkLimit p = CBigNum (drop_bit 32 (NOT 0))"
    and "nForkHeight2 p = 0"
    and "base58Prefixes p = [list_of [85], list_of [5], list_of [213],
           list_of [0x04, 0x88, 0xB2, 0x1E], list_of [0x04, 0x88, 0xAD, 0xE4]]"
    and "vFixedSeeds p = map (\<lambda>i. \<lparr> ip = pnSeed ! i, port = 9265,
                 addr_nTime = GetTime e i - GetRand e i nOneWeek - nOneWeek \<rparr>) [0 ..< length pnSeed]"
    and "genesis p = \<lparr> nVersion = 1, hashPrevBlock = 0,
           hashMerkleRoot = BuildMerkleTree e [txNew_of e pszTimestamp_main],
           nTime = 1405274442, nBits = 0x1d00ffff, nNonce = 14385103,
           vtx = [txNew_of e pszTimestamp_main] \<rparr>"
  using assms
  by (simp_all add: ctor_defs seed_loop_fields split: if_splits, auto)

lemma CMainParams_ctor_succeeds_iff:
  "(\<not> isl (CMainParams_ctor e)) =
     (GetHash e \<lparr> nVersion = 1, hashPrevBlock = 0,
          hashMerkleRoot = BuildMerkleTree e [txNew_of e pszTimestamp_main],
          nTime = 1405274442, nBits = 0x1d00ffff, nNonce = 14385103,
          vtx = [txNew_of e pszTimestamp_main] \<rparr>
        = expected_hash_main \<and>
      BuildMerkleTree e [txNew_of e pszTimestamp_main] = expected_merkle_main)"
  by (simp add: ctor_defs)

lemma CTestNetParams_ctor_Inr:
  assumes "CTestNetParams_ctor e = Inr p"
  shows "dyn_class p = CTestNetParams"
    and "hashGenesisBlock p = expected_hash_testnet"
    and "hashGenesisBlock p = GetHash e (genesis p)"
    and "bnProofOfWorkLimit p = CBigNum (drop_bit 8 (NOT 0))"
    and "nForkHeight2 p = 0"
    and "base58Prefixes p = [list_of [130], list_of [196], list_of [258],
           list_of [0x04, 0x35, 0x87, 0xCF], list_of [0x04, 0x35, 0x83, 0x94]]"
    and "vFixedSeeds p = []"
    and "genesis p = \<lparr> nVersion = 1, hashPrevBlock = 0,
           hashMerkleRoot = BuildMerkleTree e [txNew_of e pszTimestamp_testnet],
           nTime = 1509891419, nBits = 0x1e0ffff0, nNonce = 1291475,
           vtx = [txNew_of e pszTimestamp_testnet] \<rparr>"
    and "\<not> isl (CMainParams_ctor e)"
proof -
  from assms obtain m where m: "CMainParams_ctor e = Inr m"
    by (auto simp: CTestNetParams_ctor_def split: sum.splits)
  note mf = CMainParams_ctor_Inr [OF m]
  show "dyn_class p = CTestNetParams"
    and "hashGenesisBlock p = expected_hash_testnet"
    and "hashGenesisBlock p = GetHash e (genesis p)"
    and "bnProofOfWorkLimit p = CBigNum (drop_bit 8 (NOT 0))"
    and "nForkHeight2 p = 0"
    and "base58Prefixes p = [list_of [130], list_of [196], list_of [258],
           list_of [0x04, 0x35, 0x87, 0xCF], list_of [0x04, 0x35, 0x83, 0x94]]"
    and "vFixedSeeds p = []"
    and "genesis p = \<lparr> nVersion = 1, hashPrevBlock = 0,
           hashMerkleRoot = BuildMerkleTree e [txNew_of e pszTimestamp_testnet],
           nTime = 1509891419, nBits = 0x1e0ffff0, nNonce = 1291475,
           vtx = [txNew_of e pszTimestamp_testnet] \<rparr>"
    using assms m mf
    by (simp_all add: CTestNetParams_ctor_def Let_def split: if_splits, auto)
  show "\<not> isl (CMainParams_ctor e)" using m by simp
qed

lemma CTestNetParams_ctor_succeeds_iff:
  "(\<not> isl (CTestNetParams_ctor e)) =
     (\<not> isl (CMainParams_ctor e) \<and>
      GetHash e \<lparr> nVersion = 1, hashPrevBlock = 0,
          hashMerkleRoot = BuildMerkleTree e [txNew_of e pszTimestamp_testnet],
          nTime = 1509891419, nBits = 0x1e0ffff0, nNonce = 1291475,
          vtx = [txNew_of e pszTimestamp_testnet] \<rparr>
        = expected_hash_testnet)"
proof (cases "CMainParams_ctor e")
  case (Inl err)
  then show ?thesis by (simp add: CTestNetParams_ctor_def)
next
  case (Inr m)
  note mf = CMainParams_ctor_Inr [OF Inr]
  show ?thesis using Inr mf(9)
    by (simp add: CTestNetParams_ctor_def Let_def)
qed

lemma CRegTestParams_ctor_Inr:
  assumes "CRegTestParams_ctor e = Inr p"
  shows "dyn_class p = CRegTestParams"
    and "hashGenesisBlock p = expected_hash_regtest"
    and "hashGenesisBlock p = GetHash e ((genesis p)\<lparr> nNonce := 713058 \<rparr>)"
    and "bnProofOfWorkLimit p = CBigNum (drop_bit 1 (NOT 0))"
    and "nForkHeight2 p = 0"
    and "base58Prefixes p = [list_of [130], list_of [196], list_of [258],
           list_of [0x04, 0x35, 0x87, 0xCF], list_of [0x04, 0x35, 0x83, 0x94]]"
    and "vFixedSeeds p = []"
    and "genesis p = \<lparr> nVersion = 1, hashPrevBlock = 0,
           hashMerkleRoot = BuildMerkleTree e [txNew_of e pszTimestamp_testnet],
           nTime = 1405274400, nBits = 0x207fffff, nNonce = 3,
           vtx = [txNew_of e pszTimestamp_testnet] \<rparr>"
    and "\<not> isl (CTestNetParams_ctor e)"
proof -
  from assms obtain t where t: "CTestNetParams_ctor e = Inr t"
    by (auto simp: CRegTestParams_ctor_def split: sum.splits)
  note tf = CTestNetParams_ctor_Inr [OF t]
  show "dyn_class p = CRegTestParams"
    and "hashGenesisBlock p = expected_hash_regtest"
    and "hashGenesisBlock p = GetHash e ((genesis p)\<lparr> nNonce := 713058 \<rparr>)"
    and "bnProofOfWorkLimit p = CBigNum (drop_bit 1 (NOT 0))"
    and "nForkHeight2 p = 0"
    and "base58Prefixes p = [list_of [130], list_of [196], list_of [258],
           list_of [0x04, 0x35, 0x87, 0xCF], list_of [0x04, 0x35, 0x83, 0x94]]"
    and "vFixedSeeds p = []"
    and "genesis p = \<lparr> nVersion = 1, hashPrevBlock = 0,
           hashMerkleRoot = BuildMerkleTree e [txNew_of e pszTimestamp_testnet],
           nTime = 1405274400, nBits = 0x207fffff, nNonce = 3,
           vtx = [txNew_of e pszTimestamp_testnet] \<rparr>"
    using assms t tf
    by (simp_all add: CRegTestParams_ctor_def Let_def split: if_splits, auto)
  show "\<not> isl (CTestNetParams_ctor e)" using t by simp
qed

lemma CRegTestParams_ctor_succeeds_iff:
  "(\<not> isl (CRegTestParams_ctor e)) =
     (\<not> isl (CTestNetParams_ctor e) \<and>
      GetHash e \<lparr> nVersion = 1, hashPrevBlock = 0,
          hashMerkleRoot = BuildMerkleTree e [txNew_of e pszTimestamp_testnet],
          nTime = 1405274400, nBits = 0x207fffff, nNonce = 713058,
          vtx = [txNew_of e pszTimestamp_testnet] \<rparr>
        = expected_hash_regtest)"
proof (cases "CTestNetParams_ctor e")
  case (Inl err)
  then show ?thesis by (simp add: CRegTestParams_ctor_def)
next
  case (Inr t)
  note tf = CTestNetParams_ctor_Inr [OF Inr]
  show ?thesis using Inr tf(8)
    by (simp add: CRegTestParams_ctor_def Let_def)
qed

lemma static_init_constructed:
  "static_init e = Inr s \<Longrightarrow> constructed e s \<and> pCurrentParams s = addr_mainParams"
  by (auto simp: static_init_def constructed_def split: sum.splits)

lemma constructed_objects:
  assumes "constructed e s"
  shows "CMainParams_ctor e = Inr (mainParams s)"
    and "CTestNetParams_ctor e = Inr (testNetParams s)"
    and "CRegTestParams_ctor e = Inr (regTestParams s)"
  using assms by (simp_all add: constructed_def)

lemma constructed_classes:
  assumes "constructed e s"
  shows "dyn_class (mainParams s) = CMainParams"
    and "dyn_class (testNetParams s) = CTestNetParams"
    and "dyn_class (regTestParams s) = CRegTestParams"
  by (rule CMainParams_ctor_Inr(1) [OF constructed_objects(1) [OF assms]]
      CTestNetParams_ctor_Inr(1) [OF constructed_objects(2) [OF assms]]
      CRegTestParams_ctor_Inr(1) [OF constructed_objects(3) [OF assms]])+

lemma static_init_succeeds_iff:
  "(\<not> isl (static_init e)) = (\<not> isl (CRegTestParams_ctor e))"
  by (auto simp: static_init_def CRegTestParams_ctor_def CTestNetParams_ctor_def split: sum.splits)

subsection \<open>The sample environments pass the assertions\<close>

lemma sample_main_ok: "\<not> isl (CMainParams_ctor sample_env)"
  by (simp add: CMainParams_ctor_succeeds_iff sample_env_def)

lemma sample_testnet_ok: "\<not> isl (CTestNetParams_ctor sample_env)"
  by (simp add: CTestNetParams_ctor_succeeds_iff CMainParams_ctor_succeeds_iff sample_env_def)

lemma sample_regtest_ok: "\<not> isl (CRegTestParams_ctor sample_env)"
  by (simp add: CRegTestParams_ctor_succeeds_iff CTestNetParams_ctor_succeeds_iff
      CMainParams_ctor_succeeds_iff sample_env_def)

lemma sample_init: "static_init sample_env = Inr sample_globals"
  using sample_regtest_ok by (simp add: static_init_succeeds_iff sample_globals_def)

lemma sample_constructed: "constructed sample_env sample_globals"
  using static_init_constructed [OF sample_init] by simp

text \<open>The constructors do not read the command line.\<close>

lemma flags_update_fields:
  "COIN (e\<lparr> GetBoolArg := f \<rparr>) = COIN e"
  "GetHash (e\<lparr> GetBoolArg := f \<rparr>) = GetHash e"
  "BuildMerkleTree (e\<lparr> GetBoolArg := f \<rparr>) = BuildMerkleTree e"
  "GetTime (e\<lparr> GetBoolArg := f \<rparr>) = GetTime e"
  "GetRand (e\<lparr> GetBoolArg := f \<rparr>) = GetRand e"
  by simp_all

lemma ctor_ignores_flags:
  "CMainParams_ctor (e\<lparr> GetBoolArg := f \<rparr>) = CMainParams_ctor e"
  "CTestNetParams_ctor (e\<lparr> GetBoolArg := f \<rparr>) = CTestNetParams_ctor e"
  "CRegTestParams_ctor (e\<lparr> GetBoolArg := f \<rparr>) = CRegTestParams_ctor e"
proof -
  have step: "seed_step (e\<lparr> GetBoolArg := f \<rparr>) = seed_step e"
    by (intro ext) (simp add: seed_step_def)
  have tx: "txNew_of (e\<lparr> GetBoolArg := f \<rparr>) = txNew_of e"
    by (intro ext) (simp add: txNew_of_def)
  show m: "CMainParams_ctor (e\<lparr> GetBoolArg := f \<rparr>) = CMainParams_ctor e"
    unfolding CMainParams_ctor_def step tx flags_update_fields by (rule refl)
  show t: "CTestNetParams_ctor (e\<lparr> GetBoolArg := f \<rparr>) = CTestNetParams_ctor e"
    unfolding CTestNetParams_ctor_def m tx flags_update_fields by (rule refl)
  show "CRegTestParams_ctor (e\<lparr> GetBoolArg := f \<rparr>) = CRegTestParams_ctor e"
    unfolding CRegTestParams_ctor_def t flags_update_fields by (rule refl)
qed

lemma sample_flags_constructed: "constructed (sample_env_flags r t) sample_globals"
  using sample_constructed
  by (simp add: constructed_def sample_env_flags_def ctor_ignores_flags)

lemma sample_hashes_as_specified:
  "genesis_hashes_as_specified sample_env"
  "genesis_hashes_as_specified sample_env2"
  by (simp_all add: genesis_hashes_as_specified_def sample_env_def sample_env2_def txNew_of_def)

lemma sample_clock_min_init:
  "static_init sample_env_clock_min = Inr (projr (static_init sample_env_clock_min))"
proof -
  have "\<not> isl (CRegTestParams_ctor sample_env_clock_min)"
    by (simp add: CRegTestParams_ctor_succeeds_iff CTestNetParams_ctor_succeeds_iff
        CMainParams_ctor_succeeds_iff sample_env_clock_min_def sample_env_def)
  then show ?thesis by (simp add: static_init_succeeds_iff)
qed

lemma sample2_testnet_ok: "\<not> isl (CTestNetParams_ctor sample_env2)"
  by (simp add: CTestNetParams_ctor_succeeds_iff CMainParams_ctor_succeeds_iff
      sample_env_def sample_env2_def txNew_of_def)

section \<open>The genesis assertions\<close>

text \<open>
  C1, as the code has it. With the hash functions as the specification describes them,
  the main and the test constructor return, so no assertion of theirs fails; the genesis
  block each leaves has the block hash of the hard-coded literal of its network, and the
  genesis block of the main network has the Merkle root of the hard-coded Merkle-root
  literal. The equalities are checked by the assertions: with any hash functions, a main
  constructor that returns has left a genesis block with that block hash and that Merkle
  root, and a test constructor that returns has left a genesis block with the block hash
  of its literal. No Merkle root of the test genesis block is asserted, and the regression
  network is left out.
\<close>

theorem genesis_assertions:
  assumes "genesis_hashes_as_specified e"
  shows "(\<exists>m. CMainParams_ctor e = Inr m \<and>
            GetHash e (GenesisBlock m) = expected_hash_main \<and>
            HashGenesisBlock m = expected_hash_main \<and>
            hashMerkleRoot (GenesisBlock m) = expected_merkle_main) \<and>
         (\<exists>t. CTestNetParams_ctor e = Inr t \<and>
            GetHash e (GenesisBlock t) = expected_hash_testnet \<and>
            HashGenesisBlock t = expected_hash_testnet) \<and>
         (\<forall>e' m'. CMainParams_ctor e' = Inr m' \<longrightarrow>
            GetHash e' (GenesisBlock m') = expected_hash_main \<and>
            hashMerkleRoot (GenesisBlock m') = expected_merkle_main) \<and>
         (\<forall>e' t'. CTestNetParams_ctor e' = Inr t' \<longrightarrow>
            GetHash e' (GenesisBlock t') = expected_hash_testnet)"
proof -
  have checked_main: "GetHash e' (GenesisBlock m') = expected_hash_main \<and>
      HashGenesisBlock m' = expected_hash_main \<and>
      hashMerkleRoot (GenesisBlock m') = expected_merkle_main"
    if "CMainParams_ctor e' = Inr m'" for e' m'
    using CMainParams_ctor_Inr(2,3,4) [OF that]
    by (simp add: GenesisBlock_def HashGenesisBlock_def)
  have checked_test: "GetHash e' (GenesisBlock t') = expected_hash_testnet \<and>
      HashGenesisBlock t' = expected_hash_testnet"
    if "CTestNetParams_ctor e' = Inr t'" for e' t'
    using CTestNetParams_ctor_Inr(2,3) [OF that]
    by (simp add: GenesisBlock_def HashGenesisBlock_def)
  have ok_main: "\<not> isl (CMainParams_ctor e)"
    unfolding CMainParams_ctor_succeeds_iff
    using assms unfolding genesis_hashes_as_specified_def by blast
  have ok_test: "\<not> isl (CTestNetParams_ctor e)"
    unfolding CTestNetParams_ctor_succeeds_iff
    using ok_main assms unfolding genesis_hashes_as_specified_def by blast
  from ok_main obtain m where m: "CMainParams_ctor e = Inr m"
    by (cases "CMainParams_ctor e") simp_all
  from ok_test obtain t where t: "CTestNetParams_ctor e = Inr t"
    by (cases "CTestNetParams_ctor e") simp_all
  from m checked_main [OF m] have "\<exists>m. CMainParams_ctor e = Inr m \<and>
            GetHash e (GenesisBlock m) = expected_hash_main \<and>
            HashGenesisBlock m = expected_hash_main \<and>
            hashMerkleRoot (GenesisBlock m) = expected_merkle_main"
    by blast
  moreover from t checked_test [OF t] have "\<exists>t. CTestNetParams_ctor e = Inr t \<and>
            GetHash e (GenesisBlock t) = expected_hash_testnet \<and>
            HashGenesisBlock t = expected_hash_testnet"
    by blast
  moreover from checked_main have "\<forall>e' m'. CMainParams_ctor e' = Inr m' \<longrightarrow>
            GetHash e' (GenesisBlock m') = expected_hash_main \<and>
            hashMerkleRoot (GenesisBlock m') = expected_merkle_main"
    by blast
  moreover from checked_test have "\<forall>e' t'. CTestNetParams_ctor e' = Inr t' \<longrightarrow>
            GetHash e' (GenesisBlock t') = expected_hash_testnet"
    by blast
  ultimately show ?thesis by (intro conjI)
qed

theorem genesis_assertions_witness:
  "genesis_hashes_as_specified sample_env \<and>
   CMainParams_ctor sample_env = Inr (mainParams sample_globals) \<and>
   GetHash sample_env (GenesisBlock (mainParams sample_globals)) = expected_hash_main \<and>
   hashMerkleRoot (GenesisBlock (mainParams sample_globals)) = expected_merkle_main \<and>
   CTestNetParams_ctor sample_env = Inr (testNetParams sample_globals) \<and>
   GetHash sample_env (GenesisBlock (testNetParams sample_globals)) = expected_hash_testnet"
proof -
  note objs = constructed_objects [OF sample_constructed]
  note th = genesis_assertions [OF sample_hashes_as_specified(1)]
  from th objs(1)
  have "GetHash sample_env (GenesisBlock (mainParams sample_globals)) = expected_hash_main"
    and "hashMerkleRoot (GenesisBlock (mainParams sample_globals)) = expected_merkle_main"
    by auto
  moreover from th objs(2)
  have "GetHash sample_env (GenesisBlock (testNetParams sample_globals)) = expected_hash_testnet"
    by auto
  ultimately show ?thesis
    using sample_hashes_as_specified(1) objs(1) objs(2) by simp
qed

text \<open>
  C1 as stated fails. The test constructor asserts no Merkle root: in two environments
  with the hash functions as the specification describes them, which differ only in the
  Merkle root of the test genesis transaction, it returns, with two different Merkle roots
  in the genesis block. And in the first of them the regression constructor returns with a
  genesis block whose block hash is not the literal of the regression network.
\<close>

theorem genesis_claim_counterexample:
  "genesis_hashes_as_specified sample_env \<and>
   genesis_hashes_as_specified sample_env2 \<and>
   \<not> isl (CTestNetParams_ctor sample_env) \<and>
   \<not> isl (CTestNetParams_ctor sample_env2) \<and>
   hashMerkleRoot (GenesisBlock (projr (CTestNetParams_ctor sample_env))) = expected_merkle_main \<and>
   hashMerkleRoot (GenesisBlock (projr (CTestNetParams_ctor sample_env2))) = 1 \<and>
   hashMerkleRoot (GenesisBlock (projr (CTestNetParams_ctor sample_env)))
     \<noteq> hashMerkleRoot (GenesisBlock (projr (CTestNetParams_ctor sample_env2))) \<and>
   \<not> isl (CRegTestParams_ctor sample_env) \<and>
   GetHash sample_env (GenesisBlock (projr (CRegTestParams_ctor sample_env)))
     \<noteq> expected_hash_regtest"
proof -
  have a: "CTestNetParams_ctor sample_env = Inr (projr (CTestNetParams_ctor sample_env))"
    using sample_testnet_ok by simp
  have b: "CTestNetParams_ctor sample_env2 = Inr (projr (CTestNetParams_ctor sample_env2))"
    using sample2_testnet_ok by simp
  have c: "CRegTestParams_ctor sample_env = Inr (projr (CRegTestParams_ctor sample_env))"
    using sample_regtest_ok by simp
  have ma: "hashMerkleRoot (GenesisBlock (projr (CTestNetParams_ctor sample_env))) = expected_merkle_main"
    unfolding GenesisBlock_def CTestNetParams_ctor_Inr(8) [OF a]
    by (simp add: sample_env_def)
  have mb: "hashMerkleRoot (GenesisBlock (projr (CTestNetParams_ctor sample_env2))) = 1"
    unfolding GenesisBlock_def CTestNetParams_ctor_Inr(8) [OF b]
    by (simp add: sample_env2_def sample_env_def txNew_of_def pszTimestamp_main_def
        pszTimestamp_testnet_def)
  have ne: "expected_merkle_main \<noteq> 1"
    by (simp add: expected_merkle_main_def)
  have z: "GetHash sample_env (GenesisBlock (projr (CRegTestParams_ctor sample_env))) = 0"
    unfolding GenesisBlock_def CRegTestParams_ctor_Inr(8) [OF c]
    by (simp add: sample_env_def)
  have nz: "expected_hash_regtest \<noteq> 0"
    by (simp add: expected_hash_regtest_def)
  from ma mb ne z nz sample_testnet_ok sample2_testnet_ok sample_regtest_ok
    sample_hashes_as_specified
  show ?thesis by simp
qed

section \<open>The stored genesis hash and the stored genesis block\<close>

text \<open>
  The main and the test constructor take the hash after the last assignment to the block,
  so their stored hash is the hash of their stored block.
\<close>

lemma main_testnet_hash_of_stored_block:
  "CMainParams_ctor e = Inr m \<Longrightarrow> HashGenesisBlock m = GetHash e (GenesisBlock m)"
  "CTestNetParams_ctor e = Inr t \<Longrightarrow> HashGenesisBlock t = GetHash e (GenesisBlock t)"
  unfolding HashGenesisBlock_def GenesisBlock_def
  by (rule CMainParams_ctor_Inr(4) CTestNetParams_ctor_Inr(3), assumption)+

text \<open>
  C2 at the regression parameter set. The constructor takes the hash while the nonce is
  713058 and assigns 3 to the nonce afterwards: the stored block has nonce 3, and the stored
  hash is the hash of that block with nonce 713058 put back. The stored hash is the hash of
  the stored block only if \<open>GetHash\<close> gives the two blocks the same hash.
\<close>

theorem regtest_hash_taken_before_nonce_assignment:
  assumes "CRegTestParams_ctor e = Inr p"
  shows "nNonce (GenesisBlock p) = 3 \<and>
         HashGenesisBlock p = GetHash e ((GenesisBlock p)\<lparr> nNonce := 713058 \<rparr>) \<and>
         (HashGenesisBlock p = GetHash e (GenesisBlock p)) =
           (GetHash e ((GenesisBlock p)\<lparr> nNonce := 713058 \<rparr>) = GetHash e (GenesisBlock p))"
proof -
  have "nNonce (GenesisBlock p) = 3"
    unfolding GenesisBlock_def CRegTestParams_ctor_Inr(8) [OF assms] by simp
  moreover have "HashGenesisBlock p = GetHash e ((GenesisBlock p)\<lparr> nNonce := 713058 \<rparr>)"
    unfolding HashGenesisBlock_def GenesisBlock_def by (rule CRegTestParams_ctor_Inr(3) [OF assms])
  ultimately show ?thesis by simp
qed

theorem regtest_hash_taken_before_nonce_assignment_witness:
  "CRegTestParams_ctor sample_env = Inr (regTestParams sample_globals) \<and>
   nNonce (GenesisBlock (regTestParams sample_globals)) = 3 \<and>
   HashGenesisBlock (regTestParams sample_globals)
     = GetHash sample_env ((GenesisBlock (regTestParams sample_globals))\<lparr> nNonce := 713058 \<rparr>) \<and>
   HashGenesisBlock (regTestParams sample_globals) = expected_hash_regtest \<and>
   GetHash sample_env (GenesisBlock (regTestParams sample_globals)) = 0 \<and>
   HashGenesisBlock (regTestParams sample_globals)
     \<noteq> GetHash sample_env (GenesisBlock (regTestParams sample_globals))"
proof -
  note r = constructed_objects(3) [OF sample_constructed]
  note th = regtest_hash_taken_before_nonce_assignment [OF r]
  have h: "HashGenesisBlock (regTestParams sample_globals) = expected_hash_regtest"
    unfolding HashGenesisBlock_def by (rule CRegTestParams_ctor_Inr(2) [OF r])
  have z: "GetHash sample_env (GenesisBlock (regTestParams sample_globals)) = 0"
    unfolding GenesisBlock_def CRegTestParams_ctor_Inr(8) [OF r]
    by (simp add: sample_env_def)
  have "expected_hash_regtest \<noteq> 0"
    by (simp add: expected_hash_regtest_def)
  with r th h z show ?thesis by simp
qed

section \<open>Selecting the parameters\<close>

lemma SelectParams_valid:
  assumes "constructed e s"
    and "N = MAIN \<or> N = TESTNET \<or> N = REGTEST"
  shows "\<exists>s'. SelectParams N s = Inr s' \<and> NetworkID (Params s') = N \<and> constructed e s' \<and>
           mainParams s' = mainParams s \<and> testNetParams s' = testNetParams s \<and>
           regTestParams s' = regTestParams s"
  using assms(2) constructed_classes [OF assms(1)] assms(1)
  by (auto simp: NetworkID_def Params_def constructed_def)

text \<open>
  C4. After static initialisation \<open>pCurrentParams\<close> points at the main parameter set. In
  every state whose three objects are the constructed ones, \<open>SelectParams\<close> with one of
  the three network ids returns, leaves the three objects as they were, and makes
  \<open>Params()\<close> the parameter set whose \<open>NetworkID()\<close> is that id. \<open>Params\<close> reads the
  state and returns no new one, so the selection stays until the next \<open>SelectParams\<close>.
\<close>

theorem select_params_network_id:
  assumes "static_init e = Inr s0"
    and "constructed e s"
    and "N = MAIN \<or> N = TESTNET \<or> N = REGTEST"
  shows "pCurrentParams s0 = addr_mainParams \<and> NetworkID (Params s0) = MAIN \<and> constructed e s0 \<and>
         (\<exists>s'. SelectParams N s = Inr s' \<and> NetworkID (Params s') = N \<and> constructed e s' \<and>
            mainParams s' = mainParams s \<and> testNetParams s' = testNetParams s \<and>
            regTestParams s' = regTestParams s \<and>
            TestNet s' = (N = TESTNET) \<and> RegTest s' = (N = REGTEST))"
proof -
  note i = static_init_constructed [OF assms(1)]
  from i have c0: "constructed e s0" and p0: "pCurrentParams s0 = addr_mainParams"
    by simp_all
  have "NetworkID (Params s0) = MAIN"
    using constructed_classes(1) [OF c0] p0 by (simp add: NetworkID_def Params_def)
  moreover from SelectParams_valid [OF assms(2) assms(3)]
  have "\<exists>s'. SelectParams N s = Inr s' \<and> NetworkID (Params s') = N \<and> constructed e s' \<and>
            mainParams s' = mainParams s \<and> testNetParams s' = testNetParams s \<and>
            regTestParams s' = regTestParams s \<and>
            TestNet s' = (N = TESTNET) \<and> RegTest s' = (N = REGTEST)"
    by (auto simp: TestNet_def RegTest_def)
  ultimately show ?thesis using c0 p0 by simp
qed

theorem select_params_network_id_witness:
  "static_init sample_env = Inr sample_globals \<and>
   constructed sample_env sample_globals \<and>
   (TESTNET = MAIN \<or> TESTNET = TESTNET \<or> TESTNET = REGTEST) \<and>
   NetworkID (Params sample_globals) = MAIN \<and>
   (\<exists>s'. SelectParams TESTNET sample_globals = Inr s' \<and> NetworkID (Params s') = TESTNET)"
proof -
  have n: "TESTNET = MAIN \<or> TESTNET = TESTNET \<or> TESTNET = REGTEST" by simp
  from select_params_network_id [OF sample_init sample_constructed n]
  have "NetworkID (Params sample_globals) = MAIN"
    and "\<exists>s'. SelectParams TESTNET sample_globals = Inr s' \<and> NetworkID (Params s') = TESTNET"
    by blast+
  with sample_init sample_constructed show ?thesis by simp
qed

text \<open>
  C3. In every state whose three objects are the constructed ones,
  \<open>SelectParamsFromCommandLine\<close> returns \<open>false\<close> exactly when both \<open>-regtest\<close> and
  \<open>-testnet\<close> are set, and then leaves the state as it was. Otherwise it returns \<open>true\<close>
  and only moves \<open>pCurrentParams\<close>: to the regression parameter set when \<open>-regtest\<close> is
  set, else to the test parameter set when \<open>-testnet\<close> is set, else to the main one.
\<close>

theorem select_params_from_command_line:
  assumes "constructed e s"
    and "fRegTest = GetBoolArg e ''-regtest'' False"
    and "fTestNet = GetBoolArg e ''-testnet'' False"
  shows "\<exists>ok s'. SelectParamsFromCommandLine e s = Inr (ok, s') \<and>
           ok = (\<not> (fRegTest \<and> fTestNet)) \<and>
           (if fRegTest \<and> fTestNet then s' = s
            else s' = s\<lparr> pCurrentParams :=
                        (if fRegTest then addr_regTestParams
                         else if fTestNet then addr_testNetParams else addr_mainParams) \<rparr> \<and>
                 NetworkID (Params s') =
                   (if fRegTest then REGTEST else if fTestNet then TESTNET else MAIN))"
  using constructed_classes [OF assms(1)] assms(2) assms(3)
  by (simp add: SelectParamsFromCommandLine_def Let_def NetworkID_def Params_def)

theorem select_params_from_command_line_witness:
  "constructed (sample_env_flags True True) sample_globals \<and>
   True = GetBoolArg (sample_env_flags True True) ''-regtest'' False \<and>
   True = GetBoolArg (sample_env_flags True True) ''-testnet'' False \<and>
   SelectParamsFromCommandLine (sample_env_flags True True) sample_globals
     = Inr (False, sample_globals) \<and>
   constructed (sample_env_flags True False) sample_globals \<and>
   True = GetBoolArg (sample_env_flags True False) ''-regtest'' False \<and>
   False = GetBoolArg (sample_env_flags True False) ''-testnet'' False \<and>
   (\<exists>s'. SelectParamsFromCommandLine (sample_env_flags True False) sample_globals = Inr (True, s') \<and>
      NetworkID (Params s') = REGTEST)"
proof -
  have r: "True = GetBoolArg (sample_env_flags True True) ''-regtest'' False"
    and t: "True = GetBoolArg (sample_env_flags True True) ''-testnet'' False"
    and r': "True = GetBoolArg (sample_env_flags True False) ''-regtest'' False"
    and t': "False = GetBoolArg (sample_env_flags True False) ''-testnet'' False"
    by (simp_all add: sample_env_flags_def)
  from select_params_from_command_line [OF sample_flags_constructed r t]
  have both: "SelectParamsFromCommandLine (sample_env_flags True True) sample_globals
     = Inr (False, sample_globals)"
    by auto
  from select_params_from_command_line [OF sample_flags_constructed r' t']
  have "\<exists>s'. SelectParamsFromCommandLine (sample_env_flags True False) sample_globals = Inr (True, s') \<and>
      NetworkID (Params s') = REGTEST"
    by auto
  with both sample_flags_constructed r t r' t' show ?thesis by blast
qed

section \<open>Fork activation and the emission policy\<close>

text \<open>
  C5. For every block height and every parameter set, whatever its activation height:
  \<open>OnFork2\<close> holds exactly when the height is at or above \<open>nForkHeight2\<close>;
  \<open>CEM_WindowLength\<close> is 365 below the activation height and 90 from it on;
  \<open>CEM_MaxNativeBlockRewardReduction\<close> is 50 below it and 80 from it on. Heights are
  signed 64-bit integers.
\<close>

theorem fork2_boundary:
  "OnFork2 p h = (sint h \<ge> sint (GetFork2Height p)) \<and>
   CEM_WindowLength p h = (if sint h < sint (GetFork2Height p) then 365 else 90) \<and>
   CEM_MaxNativeBlockRewardReduction p h = (if sint h < sint (GetFork2Height p) then 50 else 80)"
  by (simp add: OnFork2_def CEM_WindowLength_def CEM_MaxNativeBlockRewardReduction_def
      GetFork2Height_def not_less)

text \<open>No constructor assigns \<open>nForkHeight2\<close>, so the activation height of all three is zero.\<close>

lemma fork2_height_zero:
  assumes "constructed e s"
  shows "GetFork2Height (mainParams s) = 0"
    and "GetFork2Height (testNetParams s) = 0"
    and "GetFork2Height (regTestParams s) = 0"
  using CMainParams_ctor_Inr(6) [OF constructed_objects(1) [OF assms]]
    CTestNetParams_ctor_Inr(5) [OF constructed_objects(2) [OF assms]]
    CRegTestParams_ctor_Inr(5) [OF constructed_objects(3) [OF assms]]
  by (simp_all add: GetFork2Height_def)

section \<open>Proof-of-work limits\<close>

lemma CBigNum_limits:
  "CBigNum (drop_bit 32 (NOT 0)) = 2 ^ 224 - 1"
  "CBigNum (drop_bit 8 (NOT 0)) = 2 ^ 248 - 1"
  "CBigNum (drop_bit 1 (NOT 0)) = 2 ^ 255 - 1"
  by (simp_all add: CBigNum_def uint_mask_eq mask_eq_exp_minus_1)

text \<open>
  C6. After static initialisation the proof-of-work limit of the regression network
  (\<open>2^255 - 1\<close>) is numerically larger than that of the test network (\<open>2^248 - 1\<close>),
  which is larger than that of the main network (\<open>2^224 - 1\<close>).
\<close>

theorem pow_limit_order:
  assumes "static_init e = Inr s"
  shows "ProofOfWorkLimit (mainParams s) < ProofOfWorkLimit (testNetParams s) \<and>
         ProofOfWorkLimit (testNetParams s) < ProofOfWorkLimit (regTestParams s) \<and>
         ProofOfWorkLimit (mainParams s) = 2 ^ 224 - 1 \<and>
         ProofOfWorkLimit (testNetParams s) = 2 ^ 248 - 1 \<and>
         ProofOfWorkLimit (regTestParams s) = 2 ^ 255 - 1"
proof -
  from assms have c: "constructed e s"
    by (simp add: static_init_constructed)
  have "ProofOfWorkLimit (mainParams s) = 2 ^ 224 - 1"
    unfolding ProofOfWorkLimit_def CMainParams_ctor_Inr(5) [OF constructed_objects(1) [OF c]]
    by (rule CBigNum_limits)
  moreover have "ProofOfWorkLimit (testNetParams s) = 2 ^ 248 - 1"
    unfolding ProofOfWorkLimit_def CTestNetParams_ctor_Inr(4) [OF constructed_objects(2) [OF c]]
    by (rule CBigNum_limits)
  moreover have "ProofOfWorkLimit (regTestParams s) = 2 ^ 255 - 1"
    unfolding ProofOfWorkLimit_def CRegTestParams_ctor_Inr(4) [OF constructed_objects(3) [OF c]]
    by (rule CBigNum_limits)
  ultimately show ?thesis by simp
qed

theorem pow_limit_order_witness:
  "static_init sample_env = Inr sample_globals \<and>
   ProofOfWorkLimit (mainParams sample_globals) < ProofOfWorkLimit (testNetParams sample_globals) \<and>
   ProofOfWorkLimit (testNetParams sample_globals) < ProofOfWorkLimit (regTestParams sample_globals)"
  using pow_limit_order [OF sample_init] sample_init by simp

section \<open>Fixed seeds\<close>

lemma sint_nOneWeek: "sint nOneWeek = 604800"
  by (simp add: nOneWeek_def)

lemma uint_nOneWeek: "uint nOneWeek = 604800"
  by (simp add: nOneWeek_def)

text \<open>
  The subtraction \<open>now - r - nOneWeek\<close> on 64-bit integers is the subtraction of the
  numbers as long as the clock is not within two weeks of the least 64-bit integer.
\<close>

lemma stale_time_exact:
  fixes now r :: "64 word"
  assumes r: "r \<le> nOneWeek"
    and now: "- (2 ^ 63) + 2 * sint nOneWeek \<le> sint now"
  shows "sint (now - r - nOneWeek) = sint now - uint r - 604800"
proof -
  have ur: "uint r \<le> 604800"
    using r by (simp add: word_le_def uint_nOneWeek)
  have u0: "0 \<le> uint r" by simp
  have p63: "(2::int) ^ 63 = 9223372036854775808" by simp
  have hi: "sint now < 9223372036854775808"
    using sint_lt [of now] by simp
  have lo: "- 9223372036854775808 + 1209600 \<le> sint now"
    using now by (simp add: sint_nOneWeek)
  have sr: "sint r = uint r"
  proof -
    have "- (2 ^ 63) \<le> uint r" "uint r < 2 ^ 63"
      unfolding p63 using ur u0 by linarith+
    then have "signed_take_bit 63 (uint r) = uint r"
      by (rule signed_take_bit_int_eq_self)
    then show ?thesis by (simp add: sint_uint)
  qed
  have s1: "sint (now - r) = sint now - uint r"
  proof -
    have "- (2 ^ 63) \<le> sint now - uint r" "sint now - uint r < 2 ^ 63"
      unfolding p63 using ur u0 hi lo by linarith+
    then have "signed_take_bit 63 (sint now - uint r) = sint now - uint r"
      by (rule signed_take_bit_int_eq_self)
    moreover have "sint (now - r) = signed_take_bit 63 (sint now - sint r)"
      using sint_word_diff [of now r] by simp
    ultimately show ?thesis by (simp add: sr)
  qed
  have "- (2 ^ 63) \<le> sint now - uint r - 604800" "sint now - uint r - 604800 < 2 ^ 63"
    unfolding p63 using ur u0 hi lo by linarith+
  then have "signed_take_bit 63 (sint now - uint r - 604800) = sint now - uint r - 604800"
    by (rule signed_take_bit_int_eq_self)
  moreover have "sint (now - r - nOneWeek) = signed_take_bit 63 (sint (now - r) - sint nOneWeek)"
    using sint_word_diff [of "now - r" nOneWeek] by simp
  ultimately show ?thesis by (simp add: s1 sint_nOneWeek)
qed

lemma length_pnSeed: "length pnSeed = 3"
  by (simp add: pnSeed_def)

lemma fixed_seeds_main:
  assumes "CMainParams_ctor e = Inr p"
  shows "length (FixedSeeds p) = 3"
    and "i < 3 \<Longrightarrow> addr_nTime (FixedSeeds p ! i) = GetTime e i - GetRand e i nOneWeek - nOneWeek"
  using CMainParams_ctor_Inr(8) [OF assms]
  by (simp_all add: FixedSeeds_def length_pnSeed)

text \<open>
  C7, as the code has it. Every fixed-seed address of the main parameter set, the \<open>i\<close>-th say, has the time
  \<open>GetTime() - GetRand(nOneWeek) - nOneWeek\<close> of the readings of its loop iteration. When
  the random value is in its range (at most one week) the time lies between the clock
  reading minus two weeks and the clock reading minus one week, as signed 64-bit numbers,
  for every clock reading at least two weeks above the least 64-bit integer. The test and
  the regression parameter set hold no fixed seed.
\<close>

theorem fixed_seed_time_range:
  assumes "static_init e = Inr s"
    and "i < length (FixedSeeds (mainParams s))"
    and "GetRand e i nOneWeek \<le> nOneWeek"
    and "- (2 ^ 63) + 2 * sint nOneWeek \<le> sint (GetTime e i)"
  shows "addr_nTime (FixedSeeds (mainParams s) ! i) = GetTime e i - GetRand e i nOneWeek - nOneWeek \<and>
         sint (GetTime e i) - 2 * sint nOneWeek \<le> sint (addr_nTime (FixedSeeds (mainParams s) ! i)) \<and>
         sint (addr_nTime (FixedSeeds (mainParams s) ! i)) \<le> sint (GetTime e i) - sint nOneWeek \<and>
         length (FixedSeeds (mainParams s)) = 3 \<and>
         FixedSeeds (testNetParams s) = [] \<and> FixedSeeds (regTestParams s) = []"
proof -
  from assms(1) have c: "constructed e s"
    by (simp add: static_init_constructed)
  note objs = constructed_objects [OF c]
  note fs = fixed_seeds_main [OF objs(1)]
  from assms(2) fs(1) have i: "i < 3" by simp
  have t: "addr_nTime (FixedSeeds (mainParams s) ! i) = GetTime e i - GetRand e i nOneWeek - nOneWeek"
    using fs(2) [OF i] .
  have ur: "uint (GetRand e i nOneWeek) \<le> 604800"
    using assms(3) by (simp add: word_le_def uint_nOneWeek)
  have u0: "0 \<le> uint (GetRand e i nOneWeek)" by simp
  have v: "sint (addr_nTime (FixedSeeds (mainParams s) ! i))
      = sint (GetTime e i) - uint (GetRand e i nOneWeek) - 604800"
    unfolding t using assms(3) assms(4) by (rule stale_time_exact)
  have "sint (GetTime e i) - 2 * sint nOneWeek \<le> sint (addr_nTime (FixedSeeds (mainParams s) ! i))"
    unfolding v sint_nOneWeek using ur by linarith
  moreover have "sint (addr_nTime (FixedSeeds (mainParams s) ! i)) \<le> sint (GetTime e i) - sint nOneWeek"
    unfolding v sint_nOneWeek using u0 by linarith
  moreover have "FixedSeeds (testNetParams s) = []"
    using CTestNetParams_ctor_Inr(7) [OF objs(2)] by (simp add: FixedSeeds_def)
  moreover have "FixedSeeds (regTestParams s) = []"
    using CRegTestParams_ctor_Inr(7) [OF objs(3)] by (simp add: FixedSeeds_def)
  ultimately show ?thesis using t fs(1) by simp
qed

theorem fixed_seed_time_range_witness:
  "static_init sample_env = Inr sample_globals \<and>
   (2::nat) < length (FixedSeeds (mainParams sample_globals)) \<and>
   GetRand sample_env 2 nOneWeek \<le> nOneWeek \<and>
   - (2 ^ 63) + 2 * sint nOneWeek \<le> sint (GetTime sample_env 2) \<and>
   addr_nTime (FixedSeeds (mainParams sample_globals) ! 2) = 1700000000 - 12345 - 604800 \<and>
   sint (GetTime sample_env 2) - 2 * sint nOneWeek
     \<le> sint (addr_nTime (FixedSeeds (mainParams sample_globals) ! 2)) \<and>
   sint (addr_nTime (FixedSeeds (mainParams sample_globals) ! 2))
     \<le> sint (GetTime sample_env 2) - sint nOneWeek"
proof -
  have len: "(2::nat) < length (FixedSeeds (mainParams sample_globals))"
    using fixed_seeds_main(1) [OF constructed_objects(1) [OF sample_constructed]] by simp
  have r: "GetRand sample_env 2 nOneWeek \<le> nOneWeek"
    by (simp add: sample_env_def nOneWeek_def)
  have n: "- (2 ^ 63) + 2 * sint nOneWeek \<le> sint (GetTime sample_env 2)"
    by (simp add: sample_env_def sint_nOneWeek)
  have g: "GetTime sample_env 2 = 1700000000" "\<And>nMax. GetRand sample_env 2 nMax = 12345"
    by (simp_all add: sample_env_def)
  show ?thesis
    using fixed_seed_time_range [OF sample_init len r n] sample_init len r n
    by (simp add: g nOneWeek_def)
qed

text \<open>
  C7 as stated, for every clock reading, fails: with the clock at the least signed 64-bit
  integer and the random value in its range the subtraction wraps around, and the time of
  the first fixed seed is above the clock reading minus one week.
\<close>

theorem fixed_seed_time_wraps:
  "\<not> isl (static_init sample_env_clock_min) \<and>
   0 < length (FixedSeeds (mainParams (projr (static_init sample_env_clock_min)))) \<and>
   GetRand sample_env_clock_min 0 nOneWeek \<le> nOneWeek \<and>
   sint (GetTime sample_env_clock_min 0) = - (2 ^ 63) \<and>
   sint (addr_nTime (FixedSeeds (mainParams (projr (static_init sample_env_clock_min))) ! 0))
     = 2 ^ 63 - 617145 \<and>
   \<not> (sint (addr_nTime (FixedSeeds (mainParams (projr (static_init sample_env_clock_min))) ! 0))
        \<le> sint (GetTime sample_env_clock_min 0) - sint nOneWeek)"
proof -
  note i = sample_clock_min_init
  note m = constructed_objects(1) [OF conjunct1 [OF static_init_constructed [OF i]]]
  note fs = fixed_seeds_main [OF m]
  have ok: "\<not> isl (static_init sample_env_clock_min)"
    using i by (metis sum.disc(2))
  have len: "0 < length (FixedSeeds (mainParams (projr (static_init sample_env_clock_min))))"
    using fs(1) by simp
  have r: "GetRand sample_env_clock_min 0 nOneWeek \<le> nOneWeek"
    by (simp add: sample_env_clock_min_def sample_env_def nOneWeek_def)
  have g: "GetTime sample_env_clock_min 0 = 0x8000000000000000"
    "\<And>nMax. GetRand sample_env_clock_min 0 nMax = 12345"
    by (simp_all add: sample_env_clock_min_def sample_env_def)
  have now: "sint (GetTime sample_env_clock_min 0) = - (2 ^ 63)"
    unfolding g by simp
  have t: "sint (addr_nTime (FixedSeeds (mainParams (projr (static_init sample_env_clock_min))) ! 0))
      = 2 ^ 63 - 617145"
    using fs(2) [of 0] by (simp add: g nOneWeek_def)
  have "\<not> (sint (addr_nTime (FixedSeeds (mainParams (projr (static_init sample_env_clock_min))) ! 0))
        \<le> sint (GetTime sample_env_clock_min 0) - sint nOneWeek)"
    unfolding t now sint_nOneWeek by simp
  with ok len r now t show ?thesis by (intro conjI)
qed

section \<open>The RPC password\<close>

text \<open>
  C8. After static initialisation \<open>RequireRPCPassword\<close> is false for the regression
  parameter set and true for the main and the test parameter set; among the three classes
  only \<open>CRegTestParams\<close> answers false.
\<close>

theorem rpc_password_only_off_for_regtest:
  assumes "static_init e = Inr s"
  shows "RequireRPCPassword (regTestParams s) = False \<and>
         RequireRPCPassword (mainParams s) = True \<and>
         RequireRPCPassword (testNetParams s) = True \<and>
         (\<forall>c. (RequireRPCPassword_of c = False) = (c = CRegTestParams))"
proof -
  from assms have c: "constructed e s"
    by (simp add: static_init_constructed)
  note constructed_classes [OF c]
  moreover have "\<forall>c. (RequireRPCPassword_of c = False) = (c = CRegTestParams)"
  proof
    fix c show "(RequireRPCPassword_of c = False) = (c = CRegTestParams)"
      by (cases c) simp_all
  qed
  ultimately show ?thesis
    by (simp add: RequireRPCPassword_def)
qed

theorem rpc_password_only_off_for_regtest_witness:
  "static_init sample_env = Inr sample_globals \<and>
   RequireRPCPassword (regTestParams sample_globals) = False \<and>
   RequireRPCPassword (mainParams sample_globals) = True \<and>
   RequireRPCPassword (testNetParams sample_globals) = True"
  using rpc_password_only_off_for_regtest [OF sample_init] sample_init by simp

section \<open>Base58 prefixes\<close>

lemma Base58Prefix_main:
  assumes "CMainParams_ctor e = Inr p"
  shows "map (Base58Prefix p) [PUBKEY_ADDRESS, SCRIPT_ADDRESS, SECRET_KEY, EXT_PUBLIC_KEY, EXT_SECRET_KEY]
     = map Inr [[85], [5], [213], [0x04, 0x88, 0xB2, 0x1E], [0x04, 0x88, 0xAD, 0xE4]]"
  using CMainParams_ctor_Inr(7) [OF assms]
  by (simp add: Base58Prefix_def list_of_def)

lemma Base58Prefix_testnet:
  assumes "base58Prefixes p = [list_of [130], list_of [196], list_of [258],
           list_of [0x04, 0x35, 0x87, 0xCF], list_of [0x04, 0x35, 0x83, 0x94]]"
  shows "map (Base58Prefix p) [PUBKEY_ADDRESS, SCRIPT_ADDRESS, SECRET_KEY, EXT_PUBLIC_KEY, EXT_SECRET_KEY]
     = map Inr [[130], [196], [2], [0x04, 0x35, 0x87, 0xCF], [0x04, 0x35, 0x83, 0x94]]"
  using assms by (simp add: Base58Prefix_def list_of_def)

lemma prefixes_main_distinct:
  "distinct [[85], [5], [213], [0x04, 0x88, 0xB2, 0x1E], [0x04, 0x88, 0xAD, 0xE4 :: uchar]]"
  by simp

lemma prefixes_testnet_distinct:
  "distinct [[130], [196], [2], [0x04, 0x35, 0x87, 0xCF], [0x04, 0x35, 0x83, 0x94 :: uchar]]"
  by simp

text \<open>
  C9. After static initialisation, for each of the three parameter sets \<open>Base58Prefix\<close>
  answers each of the five address kinds with a byte sequence; the five sequences are
  non-empty and pairwise distinct.
\<close>

theorem base58_prefixes_complete_distinct:
  assumes "static_init e = Inr s"
    and "p = mainParams s \<or> p = testNetParams s \<or> p = regTestParams s"
  shows "\<exists>ps. map (Base58Prefix p)
            [PUBKEY_ADDRESS, SCRIPT_ADDRESS, SECRET_KEY, EXT_PUBLIC_KEY, EXT_SECRET_KEY] = map Inr ps
          \<and> length ps = 5 \<and> [] \<notin> set ps \<and> distinct ps"
proof -
  from assms(1) have c: "constructed e s"
    by (simp add: static_init_constructed)
  note objs = constructed_objects [OF c]
  from assms(2) consider "p = mainParams s" | "p = testNetParams s" | "p = regTestParams s"
    by blast
  then show ?thesis
  proof cases
    case 1
    with Base58Prefix_main [OF objs(1)] prefixes_main_distinct show ?thesis
      by (intro exI [of _ "[[85], [5], [213], [0x04, 0x88, 0xB2, 0x1E], [0x04, 0x88, 0xAD, 0xE4]]"])
        simp
  next
    case 2
    with Base58Prefix_testnet [OF CTestNetParams_ctor_Inr(6) [OF objs(2)]]
      prefixes_testnet_distinct show ?thesis
      by (intro exI [of _ "[[130], [196], [2], [0x04, 0x35, 0x87, 0xCF], [0x04, 0x35, 0x83, 0x94]]"])
        simp
  next
    case 3
    with Base58Prefix_testnet [OF CRegTestParams_ctor_Inr(6) [OF objs(3)]]
      prefixes_testnet_distinct show ?thesis
      by (intro exI [of _ "[[130], [196], [2], [0x04, 0x35, 0x87, 0xCF], [0x04, 0x35, 0x83, 0x94]]"])
        simp
  qed
qed

theorem base58_prefixes_complete_distinct_witness:
  "static_init sample_env = Inr sample_globals \<and>
   (\<exists>ps. map (Base58Prefix (testNetParams sample_globals))
            [PUBKEY_ADDRESS, SCRIPT_ADDRESS, SECRET_KEY, EXT_PUBLIC_KEY, EXT_SECRET_KEY] = map Inr ps
          \<and> length ps = 5 \<and> [] \<notin> set ps \<and> distinct ps)"
  using base58_prefixes_complete_distinct [OF sample_init, of "testNetParams sample_globals"]
    sample_init by simp

text \<open>
  C10. For the test network and for the regression network, which inherits the table,
  \<open>Base58Prefix(SECRET_KEY)\<close> is the single byte 2: the 258 of the source is reduced
  modulo 256 when it is stored as an \<open>unsigned char\<close>.
\<close>

theorem testnet_secret_key_prefix:
  assumes "static_init e = Inr s"
  shows "Base58Prefix (testNetParams s) SECRET_KEY = Inr [2] \<and>
         Base58Prefix (regTestParams s) SECRET_KEY = Inr [2] \<and>
         list_of [258] = [word_of_int (258 mod 256)] \<and>
         map unat (list_of [258]) = [2]"
proof -
  from assms have c: "constructed e s"
    by (simp add: static_init_constructed)
  note objs = constructed_objects [OF c]
  have "Base58Prefix (testNetParams s) SECRET_KEY = Inr [2]"
    using Base58Prefix_testnet [OF CTestNetParams_ctor_Inr(6) [OF objs(2)]] by simp
  moreover have "Base58Prefix (regTestParams s) SECRET_KEY = Inr [2]"
    using Base58Prefix_testnet [OF CRegTestParams_ctor_Inr(6) [OF objs(3)]] by simp
  ultimately show ?thesis by (simp add: list_of_def)
qed

theorem testnet_secret_key_prefix_witness:
  "static_init sample_env = Inr sample_globals \<and>
   Base58Prefix (testNetParams sample_globals) SECRET_KEY = Inr [2] \<and>
   Base58Prefix (regTestParams sample_globals) SECRET_KEY = Inr [2]"
  using testnet_secret_key_prefix [OF sample_init] sample_init by simp

end
